theory Spec2Isabelle
  imports Complex_Main "HOL-Library.Sublist"
begin

section \<open>JavaScript strings\<close>

text \<open>
  A JavaScript string is a sequence of UTF-16 code units; \<open>length\<close>, \<open>slice\<close>, \<open>trim\<close>,
  \<open>includes\<close> and the regular expressions of the source (none has the \<open>u\<close> flag) all work on
  code units. A code unit is modelled as an integer (a genuine one is from \<open>0\<close> to \<open>65535\<close>),
  and \<open>str\<close> embeds an ASCII literal of the source.
\<close>

type_synonym jsstring = "int list"

definition str :: "string \<Rightarrow> jsstring" where
  "str s = map of_char s"

text \<open>
  The code units removed by \<open>String.prototype.trim\<close> and matched by \<open>\s\<close>: the WhiteSpace
  and LineTerminator productions of ECMAScript (TAB, LF, VT, FF, CR, SP, NBSP, U+1680,
  U+2000..U+200A, U+2028, U+2029, U+202F, U+205F, U+3000, U+FEFF).
\<close>

definition isWhiteSpace :: "int \<Rightarrow> bool" where
  "isWhiteSpace c \<longleftrightarrow>
     c = 9 \<or> c = 10 \<or> c = 11 \<or> c = 12 \<or> c = 13 \<or> c = 32 \<or> c = 160 \<or> c = 5760 \<or>
     (8192 \<le> c \<and> c \<le> 8202) \<or> c = 8232 \<or> c = 8233 \<or> c = 8239 \<or> c = 8287 \<or>
     c = 12288 \<or> c = 65279"

definition trim :: "jsstring \<Rightarrow> jsstring" where
  "trim s = rev (dropWhile isWhiteSpace (rev (dropWhile isWhiteSpace s)))"

fun includes_js :: "jsstring \<Rightarrow> jsstring \<Rightarrow> bool" where
  "includes_js [] p = (p = [])"
| "includes_js (c # cs) p = (prefix p (c # cs) \<or> includes_js cs p)"

definition startsWith :: "jsstring \<Rightarrow> jsstring \<Rightarrow> bool" where
  "startsWith s p = prefix p s"

fun join :: "jsstring \<Rightarrow> jsstring list \<Rightarrow> jsstring" where
  "join sep [] = []"
| "join sep [x] = x"
| "join sep (x # y # ys) = x @ sep @ join sep (y # ys)"

text \<open>The decimal rendering of a non-negative integer, as a template literal produces it.\<close>

fun show_nat :: "nat \<Rightarrow> jsstring" where
  "show_nat n = (if n < 10 then [48 + int n] else show_nat (n div 10) @ [48 + int (n mod 10)])"

declare show_nat.simps [simp del]

section \<open>Regular expressions of the source\<close>

text \<open>
  Each regular expression is translated into a function that matches it at the start of its
  input and returns the matched text and the rest; \<open>regex_search\<close> then finds the leftmost
  match, as \<open>RegExp.prototype.exec\<close> does, and returns the text before the match, the match
  (with whatever the matcher captured) and the text after it.
\<close>

fun regex_search ::
  "(jsstring \<Rightarrow> ('m \<times> jsstring) option) \<Rightarrow> jsstring \<Rightarrow> jsstring \<Rightarrow> (jsstring \<times> 'm \<times> jsstring) option"
where
  "regex_search m pre [] = (case m [] of Some (x, r) \<Rightarrow> Some (pre, x, r) | None \<Rightarrow> None)"
| "regex_search m pre (c # cs) =
     (case m (c # cs) of Some (x, r) \<Rightarrow> Some (pre, x, r) | None \<Rightarrow> regex_search m (pre @ [c]) cs)"

text \<open>
  Canonicalize of the \<open>i\<close> flag (without \<open>u\<close>), as far as the patterns of the source need it:
  every literal character of these patterns is ASCII, and ECMAScript's Canonicalize never
  maps a code unit from \<open>128\<close> on to one below \<open>128\<close>, so a pattern character and an input code
  unit agree exactly when their ASCII upper-case forms agree.
\<close>

definition canonicalize :: "int \<Rightarrow> int" where
  "canonicalize c = (if 97 \<le> c \<and> c \<le> 122 then c - 32 else c)"

fun match_literal_i :: "jsstring \<Rightarrow> jsstring \<Rightarrow> jsstring option" where
  "match_literal_i [] s = Some s"
| "match_literal_i (p # ps) [] = None"
| "match_literal_i (p # ps) (c # cs) =
     (if canonicalize p = canonicalize c then match_literal_i ps cs else None)"

fun match_literal :: "jsstring \<Rightarrow> jsstring \<Rightarrow> jsstring option" where
  "match_literal [] s = Some s"
| "match_literal (p # ps) [] = None"
| "match_literal (p # ps) (c # cs) = (if p = c then match_literal ps cs else None)"

text \<open>
  \<open>/\/models\/[^:/?]+(?::generateContent)?/i\<close> at the start of the input. The greedy run
  \<open>[^:/?]+\<close> is followed by the end of the input or by one of \<open>: / ?\<close>, and the optional group
  can match the empty string, so the first alternative the backtracking tries is the
  longest run, with the group when it matches there.
\<close>

definition modelSegmentChar :: "int \<Rightarrow> bool" where
  "modelSegmentChar c \<longleftrightarrow> c \<noteq> of_char CHR '':'' \<and> c \<noteq> of_char CHR ''/'' \<and> c \<noteq> of_char CHR ''?''"

definition match_models :: "jsstring \<Rightarrow> (jsstring \<times> jsstring) option" where
  "match_models s =
     (case match_literal_i (str ''/models/'') s of
        None \<Rightarrow> None
      | Some r \<Rightarrow>
          (let seg = takeWhile modelSegmentChar r; r' = dropWhile modelSegmentChar r in
           if seg = [] then None
           else (case match_literal_i (str '':generateContent'') r' of
                   Some r'' \<Rightarrow> Some (take (length s - length r'') s, r'')
                 | None \<Rightarrow> Some (take (length s - length r') s, r'))))"

text \<open>
  GetSubstitution for a pattern without capture groups: in the replacement text \<open>$$\<close> is a
  dollar sign, \<open>$&\<close> the match, \<open>$`\<close> the text before it and \<open>$'\<close> the text after it; a dollar
  sign followed by anything else (digits included, since no group exists) stands for itself.
\<close>

fun getSubstitution :: "jsstring \<Rightarrow> jsstring \<Rightarrow> jsstring \<Rightarrow> jsstring \<Rightarrow> jsstring" where
  "getSubstitution matched pre post (a # b # t) =
     (if a = of_char CHR ''$'' then
        (if b = of_char CHR ''$'' then a # getSubstitution matched pre post t
         else if b = of_char CHR ''&'' then matched @ getSubstitution matched pre post t
         else if b = 96 then pre @ getSubstitution matched pre post t
         else if b = 39 then post @ getSubstitution matched pre post t
         else a # getSubstitution matched pre post (b # t))
      else a # getSubstitution matched pre post (b # t))"
| "getSubstitution matched pre post [a] = [a]"
| "getSubstitution matched pre post [] = []"

text \<open>\<open>endpoint.replace(regex, replacement)\<close> for the non-global pattern above.\<close>

definition replace_models :: "jsstring \<Rightarrow> jsstring \<Rightarrow> jsstring" where
  "replace_models s replacement =
     (case regex_search match_models [] s of
        None \<Rightarrow> s
      | Some (pre, matched, post) \<Rightarrow> pre @ getSubstitution matched pre post replacement @ post)"

section \<open>types.ts\<close>

datatype Role = User | Assistant | System

record Message =
  id_message :: jsstring
  role :: Role
  content :: jsstring
  createdAt :: jsstring

record AutomationTask =
  id_task :: jsstring
  name :: jsstring
  command :: jsstring
  enabled :: bool

record LlmSettings =
  endpoint :: jsstring
  model :: jsstring
  apiKey :: jsstring
  systemPrompt :: jsstring

section \<open>The platform\<close>

text \<open>
  What the browser and the build provide is a parameter of the model: the build-time
  variable \<open>import.meta.env.VITE_GOD_API_KEY\<close>, Unicode lower-casing, the URL parser and
  serializer, and \<open>fetch\<close>.

  A response carries its status, its body as text and its body as parsed JSON, seen through
  the two interfaces the source casts it to; \<open>json = None\<close> is a body that is not JSON
  (\<open>response.json()\<close> rejects with a SyntaxError). \<open>response.ok\<close> is the Fetch standard's:
  the status is in the range 200 to 299.
\<close>

record Part =
  text_part :: "jsstring option"

record Content =
  parts :: "Part list option"

record Candidate =
  content_candidate :: "Content option"

record GeminiResponse =
  candidates :: "Candidate list option"

record ChoiceMessage =
  role_choice :: "jsstring option"
  content_choice :: "jsstring option"

record Choice =
  message :: "ChoiceMessage option"

record ChatCompletionResponse =
  choices :: "Choice list option"

record parsed_body =
  asGeminiResponse :: GeminiResponse
  asChatCompletionResponse :: ChatCompletionResponse

record response =
  status :: nat
  text_body :: jsstring
  json :: "parsed_body option"

definition ok :: "response \<Rightarrow> bool" where
  "ok r \<longleftrightarrow> 200 \<le> status r \<and> status r \<le> 299"

text \<open>
  The request handed to \<open>fetch\<close>. The body is the payload object given to
  \<open>JSON.stringify\<close>; its serialization is not modelled. The payloads of the source have two
  shapes.
\<close>

record GeminiContent =
  role_content :: jsstring
  parts_content :: "jsstring list"

record ChatMessage =
  role_chat :: Role
  content_chat :: jsstring

datatype payload =
    GeminiPayload (system_instruction: "jsstring list") (contents: "GeminiContent list")
      (generationConfig: "(nat \<times> nat) option")
  | ChatPayload (model_payload: jsstring) (messages: "ChatMessage list") (temperature: rat)
      (max_tokens: "nat option")

record request =
  url :: jsstring
  http_method :: jsstring
  headers :: "(jsstring \<times> jsstring) list"
  body :: payload

text \<open>
  \<open>fetch\<close> resolves with a response or rejects; a rejection with an \<open>Error\<close> carries its
  message, any other rejected value is \<open>None\<close>.
\<close>

datatype fetch_outcome = Responded response | Rejected "jsstring option"

text \<open>
  A URL object: the list of its query parameters, which \<open>url.searchParams\<close> reads and
  writes, and the rest of the parsed URL, which only the platform's parser and serializer
  look at.
\<close>

record 'u URL =
  parsed_url :: 'u
  searchParams :: "(jsstring \<times> jsstring) list"

record 'u platform =
  VITE_GOD_API_KEY :: "jsstring option"
  toLowerCase :: "jsstring \<Rightarrow> jsstring"
  URL_new :: "jsstring \<Rightarrow> 'u URL option"
  URL_toString :: "'u URL \<Rightarrow> jsstring"
  fetch :: "request \<Rightarrow> fetch_outcome"

text \<open>\<open>URLSearchParams.has\<close> and \<open>URLSearchParams.set\<close> of the URL standard.\<close>

definition searchParams_has :: "(jsstring \<times> jsstring) list \<Rightarrow> jsstring \<Rightarrow> bool" where
  "searchParams_has ps n = (filter (\<lambda>p. fst p = n) ps \<noteq> [])"

fun set_first :: "(jsstring \<times> jsstring) list \<Rightarrow> jsstring \<Rightarrow> jsstring \<Rightarrow> (jsstring \<times> jsstring) list" where
  "set_first [] n v = []"
| "set_first (p # ps) n v =
     (if fst p = n then (n, v) # filter (\<lambda>q. fst q \<noteq> n) ps else p # set_first ps n v)"

definition searchParams_set ::
  "(jsstring \<times> jsstring) list \<Rightarrow> jsstring \<Rightarrow> jsstring \<Rightarrow> (jsstring \<times> jsstring) list" where
  "searchParams_set ps n v = (if searchParams_has ps n then set_first ps n v else ps @ [(n, v)])"


section \<open>llm.ts\<close>

text \<open>
  The source throws \<open>Error\<close> objects that differ in their message only. The model keeps the
  message and labels each throw site with its kind in the error taxonomy; the TypeError of
  \<open>new URL\<close> and the SyntaxError of \<open>response.json()\<close>, which the source does not catch, are
  errors of their own.
\<close>

datatype error_kind = ConfigError | NetworkError | RateLimited | AuthError | ProviderError | EmptyResponse

datatype error = Error error_kind jsstring | TypeError | SyntaxError

datatype provider = Gemini | OpenAI_compatible

fun providerName :: "provider \<Rightarrow> jsstring" where
  "providerName Gemini = str ''Gemini''"
| "providerName OpenAI_compatible = str ''OpenAI-compatible''"

definition safeFetch :: "'u platform \<Rightarrow> request \<Rightarrow> provider \<Rightarrow> error + response" where
  "safeFetch P req provider =
     (case fetch P req of
        Responded r \<Rightarrow> Inr r
      | Rejected err \<Rightarrow>
          (let message' = (case err of Some m \<Rightarrow> m | None \<Rightarrow> str ''Unknown network error'') in
           if provider = OpenAI_compatible \<and> includes_js (toLowerCase P message') (str ''failed to fetch'')
           then Inl (Error NetworkError
             (str ''OpenAI-compatible request failed in browser (Failed to fetch). This is commonly CORS/network policy. Use Gemini preset, Ollama local preset, or route requests through your own backend relay.''))
           else Inl (Error NetworkError
             (providerName provider @ str '' request could not reach the endpoint ('' @ message'
              @ str ''). Check internet access, endpoint URL, CORS/referrer restrictions, and firewall/proxy settings.''))))"

definition formatProviderHttpError :: "provider \<Rightarrow> nat \<Rightarrow> jsstring \<Rightarrow> error_kind \<times> jsstring" where
  "formatProviderHttpError provider status' details =
     (let brief = take 220 details in
      if status' = 429 then
        (RateLimited, providerName provider @ str '' quota/rate limit reached (429): '' @ brief
           @ str ''. Check billing/quota, then retry later or switch to Ollama preset.'')
      else if status' = 401 \<or> status' = 403 then
        (AuthError, providerName provider @ str '' authentication/permission failed ('' @ show_nat status'
           @ str ''): '' @ brief @ str ''. Verify API key and provider permissions.'')
      else if provider = Gemini then
        (ProviderError, str ''Gemini request failed ('' @ show_nat status' @ str ''): '' @ brief
           @ str ''. Verify API key validity and that Generative Language API is enabled.'')
      else
        (ProviderError, providerName provider @ str '' request failed ('' @ show_nat status'
           @ str ''): '' @ brief))"

definition isGeminiEndpoint :: "jsstring \<Rightarrow> bool" where
  "isGeminiEndpoint endpoint' = includes_js endpoint' (str ''generativelanguage.googleapis.com'')"

definition isLocalOllamaEndpoint :: "'u platform \<Rightarrow> jsstring \<Rightarrow> bool" where
  "isLocalOllamaEndpoint P endpoint' =
     (let value = toLowerCase P endpoint' in
      includes_js value (str ''localhost:11434'') \<or> includes_js value (str ''127.0.0.1:11434''))"

definition resolveApiKey :: "'u platform \<Rightarrow> LlmSettings \<Rightarrow> jsstring" where
  "resolveApiKey P settings =
     (let entered = trim (apiKey settings) in
      if entered \<noteq> [] then entered
      else trim (case VITE_GOD_API_KEY P of Some k \<Rightarrow> k | None \<Rightarrow> []))"

definition validateProviderSettings :: "'u platform \<Rightarrow> jsstring \<Rightarrow> jsstring \<Rightarrow> jsstring option" where
  "validateProviderSettings P endpoint' apiKey' =
     (let trimmedKey = trim apiKey'; gemini = isGeminiEndpoint endpoint' in
      if isLocalOllamaEndpoint P endpoint' then None
      else if trimmedKey = [] then None
      else if gemini \<and> \<not> startsWith trimmedKey (str ''AIza'') then
        Some (str ''Gemini preset expects a Google API key (usually starts with AIza).'')
      else if \<not> gemini \<and> startsWith trimmedKey (str ''AIza'') then
        Some (str ''OpenAI-compatible preset cannot use a Google Gemini key. Switch preset to Gemini API or provide a compatible provider key.'')
      else None)"

definition withGeminiApiKey :: "'u platform \<Rightarrow> jsstring \<Rightarrow> jsstring \<Rightarrow> error + jsstring" where
  "withGeminiApiKey P endpoint' apiKey' =
     (let trimmedApiKey = trim apiKey' in
      if trimmedApiKey = [] then Inr endpoint'
      else (case URL_new P endpoint' of
              None \<Rightarrow> Inl TypeError
            | Some url' \<Rightarrow>
                Inr (URL_toString P
                  (if \<not> searchParams_has (searchParams url') (str ''key'')
                   then url'\<lparr>searchParams := searchParams_set (searchParams url') (str ''key'') trimmedApiKey\<rparr>
                   else url'))))"

definition withGeminiModel :: "jsstring \<Rightarrow> jsstring \<Rightarrow> jsstring" where
  "withGeminiModel endpoint' model' =
     (let trimmedModel = trim model' in
      if trimmedModel = [] then endpoint'
      else replace_models endpoint' (str ''/models/'' @ trimmedModel @ str '':generateContent''))"

definition buildHeaders :: "'u platform \<Rightarrow> LlmSettings \<Rightarrow> (jsstring \<times> jsstring) list" where
  "buildHeaders P settings =
     (let headers' = [(str ''Content-Type'', str ''application/json'')];
          apiKey' = resolveApiKey P settings in
      if apiKey' \<noteq> [] then headers' @ [(str ''Authorization'', str ''Bearer '' @ apiKey')]
      else headers')"

text \<open>
  \<open>body.candidates?.[0]?.content?.parts?.map((part) => part.text ?? '').join('').trim()\<close>;
  \<open>None\<close> is \<open>undefined\<close>.
\<close>

definition geminiText :: "GeminiResponse \<Rightarrow> jsstring option" where
  "geminiText b =
     (case candidates b of
        None \<Rightarrow> None
      | Some cs \<Rightarrow>
          (case cs of
             [] \<Rightarrow> None
           | c # _ \<Rightarrow>
               (case content_candidate c of
                  None \<Rightarrow> None
                | Some ct \<Rightarrow>
                    (case parts ct of
                       None \<Rightarrow> None
                     | Some ps \<Rightarrow>
                         Some (trim (join []
                           (map (\<lambda>part. case text_part part of Some t \<Rightarrow> t | None \<Rightarrow> []) ps)))))))"

text \<open>\<open>body.choices?.[0]?.message?.content?.trim()\<close>.\<close>

definition chatText :: "ChatCompletionResponse \<Rightarrow> jsstring option" where
  "chatText b =
     (case choices b of
        None \<Rightarrow> None
      | Some cs \<Rightarrow>
          (case cs of
             [] \<Rightarrow> None
           | c # _ \<Rightarrow>
               (case message c of
                  None \<Rightarrow> None
                | Some m \<Rightarrow> (case content_choice m of None \<Rightarrow> None | Some t \<Rightarrow> Some (trim t)))))"

definition jsonContentType :: "(jsstring \<times> jsstring) list" where
  "jsonContentType = [(str ''Content-Type'', str ''application/json'')]"

text \<open>
  The result of a call is what it returns or throws, together with the requests it has
  handed to \<open>fetch\<close>, in order. The two messages that \<open>validateProviderSettings\<close> can
  return are not empty, so the test \<open>if (configProblem)\<close> is the test that it returned a
  message.
\<close>

type_synonym outcome = "(error + jsstring) \<times> request list"

definition geminiContents :: "Message list \<Rightarrow> GeminiContent list" where
  "geminiContents msgs =
     map (\<lambda>m. \<lparr>role_content = (if role m = Assistant then str ''model'' else str ''user''),
               parts_content = [content m]\<rparr>)
       (filter (\<lambda>m. role m \<noteq> System) msgs)"

definition chatMessages :: "LlmSettings \<Rightarrow> Message list \<Rightarrow> ChatMessage list" where
  "chatMessages settings msgs =
     \<lparr>role_chat = System, content_chat = trim (systemPrompt settings)\<rparr>
       # map (\<lambda>m. \<lparr>role_chat = role m, content_chat = content m\<rparr>) msgs"

definition requestChatCompletion :: "'u platform \<Rightarrow> Message list \<Rightarrow> LlmSettings \<Rightarrow> outcome" where
  "requestChatCompletion P msgs settings =
     (let endpointValue = trim (endpoint settings);
          apiKey' = resolveApiKey P settings in
      if endpointValue = [] then
        (Inl (Error ConfigError
           (str ''Connector endpoint is empty. Set a valid endpoint in Connector settings.'')), [])
      else
        (case validateProviderSettings P endpointValue apiKey' of
           Some configProblem \<Rightarrow> (Inl (Error ConfigError configProblem), [])
         | None \<Rightarrow>
             if isGeminiEndpoint (trim (endpoint settings)) then
               (let modelEndpoint = withGeminiModel endpointValue (model settings) in
                case withGeminiApiKey P modelEndpoint apiKey' of
                  Inl e \<Rightarrow> (Inl e, [])
                | Inr endpoint' \<Rightarrow>
                    (let req = \<lparr>url = endpoint', http_method = str ''POST'', headers = jsonContentType,
                                body = GeminiPayload [trim (systemPrompt settings)]
                                         (geminiContents msgs) None\<rparr> in
                     case safeFetch P req Gemini of
                       Inl e \<Rightarrow> (Inl e, [req])
                     | Inr response \<Rightarrow>
                         if \<not> ok response then
                           (let (kind, msg) = formatProviderHttpError Gemini (status response)
                                                (text_body response)
                            in (Inl (Error kind msg), [req]))
                         else
                           (case json response of
                              None \<Rightarrow> (Inl SyntaxError, [req])
                            | Some parsed \<Rightarrow>
                                (case geminiText (asGeminiResponse parsed) of
                                   None \<Rightarrow>
                                     (Inl (Error EmptyResponse
                                        (str ''Gemini response did not include assistant content.'')), [req])
                                 | Some c \<Rightarrow>
                                     if c = [] then
                                       (Inl (Error EmptyResponse
                                          (str ''Gemini response did not include assistant content.'')), [req])
                                     else (Inr c, [req])))))
             else
               (let req = \<lparr>url = endpointValue, http_method = str ''POST'',
                           headers = buildHeaders P settings,
                           body = ChatPayload (trim (model settings)) (chatMessages settings msgs)
                                    (3 / 10) None\<rparr> in
                case safeFetch P req OpenAI_compatible of
                  Inl e \<Rightarrow> (Inl e, [req])
                | Inr response \<Rightarrow>
                    if \<not> ok response then
                      (let (kind, msg) = formatProviderHttpError OpenAI_compatible (status response)
                                           (text_body response)
                       in (Inl (Error kind msg), [req]))
                    else
                      (case json response of
                         None \<Rightarrow> (Inl SyntaxError, [req])
                       | Some parsed \<Rightarrow>
                           (case chatText (asChatCompletionResponse parsed) of
                              None \<Rightarrow>
                                (Inl (Error EmptyResponse
                                   (str ''LLM response did not include assistant content.'')), [req])
                            | Some c \<Rightarrow>
                                if c = [] then
                                  (Inl (Error EmptyResponse
                                     (str ''LLM response did not include assistant content.'')), [req])
                                else (Inr c, [req]))))))"

definition testConnector :: "'u platform \<Rightarrow> LlmSettings \<Rightarrow> outcome" where
  "testConnector P settings =
     (let endpointValue = trim (endpoint settings);
          apiKey' = resolveApiKey P settings in
      if endpointValue = [] then
        (Inl (Error ConfigError (str ''Connector endpoint is empty.'')), [])
      else
        (case validateProviderSettings P endpointValue apiKey' of
           Some configProblem \<Rightarrow> (Inl (Error ConfigError configProblem), [])
         | None \<Rightarrow>
             if isGeminiEndpoint (trim (endpoint settings)) then
               (let modelEndpoint = withGeminiModel endpointValue (model settings) in
                case withGeminiApiKey P modelEndpoint apiKey' of
                  Inl e \<Rightarrow> (Inl e, [])
                | Inr endpoint' \<Rightarrow>
                    (let req = \<lparr>url = endpoint', http_method = str ''POST'', headers = jsonContentType,
                                body = GeminiPayload [trim (systemPrompt settings)]
                                         [\<lparr>role_content = str ''user'',
                                           parts_content = [str ''Reply with: OK'']\<rparr>]
                                         (Some (8, 0))\<rparr> in
                     case safeFetch P req Gemini of
                       Inl e \<Rightarrow> (Inl e, [req])
                     | Inr response \<Rightarrow>
                         if \<not> ok response then
                           (let (kind, msg) = formatProviderHttpError Gemini (status response)
                                                (text_body response)
                            in (Inl (Error kind msg), [req]))
                         else (Inr (str ''Gemini connector reachable''), [req])))
             else
               (let req = \<lparr>url = endpointValue, http_method = str ''POST'',
                           headers = buildHeaders P settings,
                           body = ChatPayload (trim (model settings))
                                    [\<lparr>role_chat = System, content_chat = trim (systemPrompt settings)\<rparr>,
                                     \<lparr>role_chat = User, content_chat = str ''Reply with: OK''\<rparr>]
                                    0 (Some 8)\<rparr> in
                case safeFetch P req OpenAI_compatible of
                  Inl e \<Rightarrow> (Inl e, [req])
                | Inr response \<Rightarrow>
                    if \<not> ok response then
                      (let (kind, msg) = formatProviderHttpError OpenAI_compatible (status response)
                                           (text_body response)
                       in (Inl (Error kind msg), [req]))
                    else (Inr (str ''Connector reachable''), [req]))))"

section \<open>automation.ts\<close>

text \<open>
  \<open>string.match(regex)\<close> with a global regular expression: all matches from left to
  right, each search starting where the previous match ended (one code unit further after
  an empty match). \<open>skip\<close> counts the code units of the last match still to be passed.
\<close>

fun match_all :: "(jsstring \<Rightarrow> (jsstring \<times> jsstring) option) \<Rightarrow> nat \<Rightarrow> jsstring \<Rightarrow> jsstring list" where
  "match_all m skip [] =
     (if skip = 0 then (case m [] of Some (x, r) \<Rightarrow> [x] | None \<Rightarrow> []) else [])"
| "match_all m skip (c # cs) =
     (if skip > 0 then match_all m (skip - 1) cs
      else (case m (c # cs) of
              Some (x, r) \<Rightarrow> x # match_all m (length x - 1) cs
            | None \<Rightarrow> match_all m 0 cs))"

text \<open>\<open>/https?:\/\/[^\s]+/\<close> at the start of the input.\<close>

definition match_url :: "jsstring \<Rightarrow> (jsstring \<times> jsstring) option" where
  "match_url s =
     (case match_literal (str ''http'') s of
        None \<Rightarrow> None
      | Some r \<Rightarrow>
          (let r1 = (case match_literal (str ''s'') r of Some r' \<Rightarrow> r' | None \<Rightarrow> r) in
           case match_literal (str ''://'') r1 of
             None \<Rightarrow> None
           | Some r2 \<Rightarrow>
               (let run = takeWhile (\<lambda>c. \<not> isWhiteSpace c) r2;
                    rest = dropWhile (\<lambda>c. \<not> isWhiteSpace c) r2 in
                if run = [] then None else Some (take (length s - length rest) s, rest))))"

text \<open>
  \<open>/[^?\n][^?]*\?/\<close> at the start of the input: one code unit that is neither a question
  mark nor a line feed, then everything up to and including the next question mark.
\<close>

definition match_question :: "jsstring \<Rightarrow> (jsstring \<times> jsstring) option" where
  "match_question s =
     (case s of
        [] \<Rightarrow> None
      | c # cs \<Rightarrow>
          if c = of_char CHR ''?'' \<or> c = 10 then None
          else (case dropWhile (\<lambda>d. d \<noteq> of_char CHR ''?'') cs of
                  [] \<Rightarrow> None
                | q # rest \<Rightarrow> Some (c # takeWhile (\<lambda>d. d \<noteq> of_char CHR ''?'') cs @ [q], rest)))"

text \<open>
  \<open>/(?:correct(?:\s+answer)?|answer)\s*[:\-]\s*([^\n]+)/i\<close> at the start of the input; the
  matchers return the text of capture group 1 and the rest.

  \<open>\s*([^\n]+)\<close>: after the longest run of white space the group takes everything up to
  the next line feed; when that run reaches the end of the input, the backtracking gives
  the group the last code unit of the run that is not a line feed.
\<close>

definition match_capture :: "jsstring \<Rightarrow> (jsstring \<times> jsstring) option" where
  "match_capture s =
     (let ws = takeWhile isWhiteSpace s; r = dropWhile isWhiteSpace s in
      if r \<noteq> [] then Some (takeWhile (\<lambda>c. c \<noteq> 10) r, dropWhile (\<lambda>c. c \<noteq> 10) r)
      else (case dropWhile (\<lambda>c. c = 10) (rev ws) of
              [] \<Rightarrow> None
            | c # _ \<Rightarrow> Some ([c], takeWhile (\<lambda>c. c = 10) (rev ws))))"

definition match_answer_tail :: "jsstring \<Rightarrow> (jsstring \<times> jsstring) option" where
  "match_answer_tail s =
     (case dropWhile isWhiteSpace s of
        [] \<Rightarrow> None
      | d # r \<Rightarrow>
          if d = of_char CHR '':'' \<or> d = of_char CHR ''-'' then match_capture r else None)"

definition match_correct :: "jsstring \<Rightarrow> (jsstring \<times> jsstring) option" where
  "match_correct s =
     (case match_literal_i (str ''correct'') s of
        None \<Rightarrow> None
      | Some r \<Rightarrow>
          (let withAnswer =
                 (if takeWhile isWhiteSpace r = [] then None
                  else (case match_literal_i (str ''answer'') (dropWhile isWhiteSpace r) of
                          None \<Rightarrow> None
                        | Some r' \<Rightarrow> match_answer_tail r'))
           in case withAnswer of Some res \<Rightarrow> Some res | None \<Rightarrow> match_answer_tail r))"

definition match_answer :: "jsstring \<Rightarrow> (jsstring \<times> jsstring) option" where
  "match_answer s =
     (case match_correct s of
        Some res \<Rightarrow> Some res
      | None \<Rightarrow>
          (case match_literal_i (str ''answer'') s of
             None \<Rightarrow> None
           | Some r \<Rightarrow> match_answer_tail r))"

text \<open>
  The fenced code block pattern (three backticks, \<open>[\s\S]*?\<close>, three backticks) at the
  start of the input: the lazy star stops at the first closing fence.
\<close>

definition fence :: jsstring where
  "fence = [96, 96, 96]"

definition match_code :: "jsstring \<Rightarrow> (jsstring \<times> jsstring) option" where
  "match_code s =
     (case match_literal fence s of
        None \<Rightarrow> None
      | Some r \<Rightarrow>
          (case regex_search (\<lambda>t. map_option (\<lambda>r'. ((), r')) (match_literal fence t)) [] r of
             None \<Rightarrow> None
           | Some (inner, _, rest) \<Rightarrow> Some (take (length s - length rest) s, rest)))"

text \<open>
  \<open>string.split(/\s+/)\<close>: the pieces between the maximal runs of white space; \<open>inSep\<close> says
  that the scan is inside such a run, \<open>cur\<close> is the piece read so far.
\<close>

fun split_ws :: "bool \<Rightarrow> jsstring \<Rightarrow> jsstring \<Rightarrow> jsstring list" where
  "split_ws inSep cur [] = [cur]"
| "split_ws inSep cur (c # cs) =
     (if isWhiteSpace c then (if inSep then split_ws True cur cs else cur # split_ws True [] cs)
      else split_ws False (cur @ [c]) cs)"

text \<open>\<open>[...new Set(words)]\<close>: the distinct elements in the order of their first occurrence.\<close>

fun set_elements :: "jsstring list \<Rightarrow> jsstring list \<Rightarrow> jsstring list" where
  "set_elements seen [] = seen"
| "set_elements seen (w # ws) =
     (if w \<in> set seen then set_elements seen ws else set_elements (seen @ [w]) ws)"

definition defaultTasks :: "AutomationTask list" where
  "defaultTasks =
     [\<lparr>id_task = str ''summarize'', name = str ''Summarize Input'',
       command = str ''Extract key points and action items.'', enabled = True\<rparr>,
      \<lparr>id_task = str ''roadmap'', name = str ''Generate Roadmap'',
       command = str ''Create a short execution plan.'', enabled = True\<rparr>,
      \<lparr>id_task = str ''safety-check'', name = str ''Safety Check'',
       command = str ''Block requests for privilege escalation or system exploitation.'', enabled = True\<rparr>,
      \<lparr>id_task = str ''answer-web-questions'', name = str ''Answer Web Questions'',
       command = str ''Extract and answer questions from the current webpage content.'', enabled = True\<rparr>,
      \<lparr>id_task = str ''extract-links'', name = str ''Extract Links'',
       command = str ''Pull all hyperlinks and URLs from the provided content.'', enabled = True\<rparr>,
      \<lparr>id_task = str ''faq-generator'', name = str ''FAQ Generator'',
       command = str ''Create a frequently asked questions list from the content.'', enabled = True\<rparr>,
      \<lparr>id_task = str ''code-extractor'', name = str ''Code Extractor'',
       command = str ''Extract code snippets and provide explanations.'', enabled = True\<rparr>,
      \<lparr>id_task = str ''key-phrases'', name = str ''Key Phrases'',
       command = str ''Extract and list important keywords and topics.'', enabled = True\<rparr>]"

text \<open>The label \<open>[${task.name}]\<close> that opens every block, and the bullet list of a block.\<close>

definition label :: "AutomationTask \<Rightarrow> jsstring" where
  "label task = str ''['' @ name task @ str '']''"

definition bullets :: "jsstring list \<Rightarrow> jsstring" where
  "bullets xs = join [10] (map (\<lambda>x. str ''- '' @ x) xs)"

definition questionMatches :: "jsstring \<Rightarrow> jsstring list" where
  "questionMatches cleanedPrompt =
     filter (\<lambda>q. q \<noteq> []) (map trim (match_all match_question 0 cleanedPrompt))"

definition extractedAnswer :: "jsstring \<Rightarrow> jsstring option" where
  "extractedAnswer cleanedPrompt =
     (case regex_search match_answer [] cleanedPrompt of
        None \<Rightarrow> None
      | Some (_, capture, _) \<Rightarrow> Some (trim capture))"

text \<open>
  One iteration of the loop over the active tasks: the \<open>switch\<close> on \<open>task.id\<close>, every branch
  of which pushes onto \<open>outputs\<close>. The artificial delay before it has no effect on the result.
\<close>

definition runTask :: "'u platform \<Rightarrow> jsstring \<Rightarrow> AutomationTask \<Rightarrow> jsstring list \<Rightarrow> jsstring list" where
  "runTask P cleanedPrompt task outputs =
     (if id_task task = str ''summarize'' then
        outputs @ [label task @ [10] @
          (if length cleanedPrompt > 300 then take 300 cleanedPrompt @ str ''...'' else cleanedPrompt)]
      else if id_task task = str ''roadmap'' then
        outputs @ [label task @ [10] @ str ''1. Understand the problem'' @ [10]
          @ str ''2. Identify key steps'' @ [10] @ str ''3. Execute and validate'' @ [10]
          @ str ''4. Document results'']
      else if id_task task = str ''safety-check'' then
        (let blocked = [str ''admin rights'', str ''privilege escalation'', str ''reverse engineer''];
             matched = filter (\<lambda>word. includes_js (toLowerCase P cleanedPrompt) word) blocked;
             isSafe = (length matched = 0) in
         outputs @ [label task @ [10] @
           (if isSafe then [9989] @ str '' Safe to execute''
            else [9888, 65039] @ str '' Needs manual review (matched: '' @ join (str '', '') matched
                 @ str '')'')])
      else if id_task task = str ''answer-web-questions'' then
        (let urlPattern = regex_search match_url [] cleanedPrompt;
             questions = questionMatches cleanedPrompt in
         case urlPattern of
           Some (_, url0, _) \<Rightarrow>
             (let questionPreview =
                    (if length questions > 0
                     then [10] @ str ''Detected question(s):'' @ [10] @ bullets questions else [])
              in outputs @ [label task @ [10] @ [55357, 56516] @ str '' Webpage detected: '' @ url0
                   @ questionPreview @ [10]
                   @ str ''Use the Paste Page Text box for exact grounded answers, or let GOD try to fetch page content automatically.''])
         | None \<Rightarrow>
             if length questions > 0 then
               (let answer = (case extractedAnswer cleanedPrompt of
                                Some a \<Rightarrow> (if a \<noteq> [] then Some a else None)
                              | None \<Rightarrow> None)
                in outputs @ [label task @ [10] @ str ''Detected '' @ show_nat (length questions)
                     @ str '' question(s).'' @ [10] @ [10068] @ str '' Questions:'' @ [10]
                     @ bullets questions
                     @ (case answer of
                          Some a \<Rightarrow> [10, 9989] @ str '' Possible answer found in provided content: '' @ a
                        | None \<Rightarrow> [])
                     @ (case answer of
                          Some a \<Rightarrow> []
                        | None \<Rightarrow> [10, 8505, 65039] @ str '' No explicit '' @ [34] @ str ''correct answer''
                            @ [34] @ str '' text found. Paste more of the page content or metadata.'')])
             else outputs @ [label task @ [10] @ str ''No questions detected in input.''])
      else if id_task task = str ''extract-links'' then
        (let urlMatch = match_all match_url 0 cleanedPrompt in
         if length urlMatch > 0 then
           outputs @ [label task @ [10] @ str ''Found '' @ show_nat (length urlMatch) @ str '' link(s):''
             @ [10] @ bullets urlMatch]
         else outputs @ [label task @ [10] @ str ''No links found in input.''])
      else if id_task task = str ''faq-generator'' then
        outputs @ [label task @ [10]
          @ str ''FAQ structure would extract Q&A patterns from content. Manual extraction recommended for accuracy.'']
      else if id_task task = str ''code-extractor'' then
        (let codeMatch = match_all match_code 0 cleanedPrompt in
         if length codeMatch > 0 then
           outputs @ [label task @ [10] @ str ''Found '' @ show_nat (length codeMatch)
             @ str '' code block(s).'']
         else outputs @ [label task @ [10] @ str ''No code blocks detected.''])
      else if id_task task = str ''key-phrases'' then
        (let words = filter (\<lambda>w. length w > 5) (split_ws False [] cleanedPrompt);
             unique = take 5 (set_elements [] words) in
         outputs @ [label task @ [10] @ str ''Key terms: '' @ join (str '', '') unique])
      else outputs @ [label task @ str '' '' @ command task])"

fun runTasks :: "'u platform \<Rightarrow> jsstring \<Rightarrow> AutomationTask list \<Rightarrow> jsstring list \<Rightarrow> jsstring list" where
  "runTasks P cleanedPrompt [] outputs = outputs"
| "runTasks P cleanedPrompt (task # rest) outputs =
     runTasks P cleanedPrompt rest (runTask P cleanedPrompt task outputs)"

definition runAutomation :: "'u platform \<Rightarrow> jsstring \<Rightarrow> AutomationTask list \<Rightarrow> jsstring list" where
  "runAutomation P userPrompt tasks =
     (let activeTasks = filter enabled tasks in
      if length activeTasks = 0 then [str ''No automation tasks enabled.'']
      else
        (let cleanedPrompt = trim userPrompt;
             outputs = runTasks P cleanedPrompt activeTasks [] in
         if cleanedPrompt \<noteq> [] then
           outputs @ [[10] @ str ''Input: '' @ [34] @ take 200 cleanedPrompt
             @ (if length cleanedPrompt > 200 then str ''...'' else []) @ [34]]
         else outputs))"

section \<open>A concrete platform\<close>

text \<open>
  To run the model on concrete inputs the platform is instantiated: lower-casing of the
  ASCII letters, which is \<open>String.prototype.toLowerCase\<close> on strings of ASCII code units, and
  the URL standard on absolute \<open>http\<close> and \<open>https\<close> URLs that are already in serialized
  form, have a path and no fragment, and whose query needs no percent-encoding: the URL
  object keeps the text before the question mark and the list of \<open>name=value\<close> pairs after
  it. The build-time key and \<open>fetch\<close> stay parameters.
\<close>

definition ascii_toLowerCase :: "jsstring \<Rightarrow> jsstring" where
  "ascii_toLowerCase s = map (\<lambda>c. if 65 \<le> c \<and> c \<le> 90 then c + 32 else c) s"

fun split_on :: "int \<Rightarrow> jsstring \<Rightarrow> jsstring \<Rightarrow> jsstring list" where
  "split_on sep cur [] = [cur]"
| "split_on sep cur (c # cs) =
     (if c = sep then cur # split_on sep [] cs else split_on sep (cur @ [c]) cs)"

definition parse_pair :: "jsstring \<Rightarrow> jsstring \<times> jsstring" where
  "parse_pair s =
     (takeWhile (\<lambda>c. c \<noteq> of_char CHR ''='') s, drop 1 (dropWhile (\<lambda>c. c \<noteq> of_char CHR ''='') s))"

definition simple_URL_new :: "jsstring \<Rightarrow> jsstring URL option" where
  "simple_URL_new s =
     (if startsWith s (str ''https://'') \<or> startsWith s (str ''http://'') then
        Some \<lparr>parsed_url = takeWhile (\<lambda>c. c \<noteq> of_char CHR ''?'') s,
              searchParams =
                map parse_pair
                  (filter (\<lambda>x. x \<noteq> [])
                     (split_on (of_char CHR ''&'') []
                        (drop 1 (dropWhile (\<lambda>c. c \<noteq> of_char CHR ''?'') s))))\<rparr>
      else None)"

definition simple_URL_toString :: "jsstring URL \<Rightarrow> jsstring" where
  "simple_URL_toString u =
     parsed_url u @
       (if searchParams u = [] then []
        else str ''?'' @ join (str ''&'') (map (\<lambda>p. fst p @ str ''='' @ snd p) (searchParams u)))"

definition simple_platform :: "jsstring option \<Rightarrow> (request \<Rightarrow> fetch_outcome) \<Rightarrow> jsstring platform" where
  "simple_platform envKey f =
     \<lparr>VITE_GOD_API_KEY = envKey, toLowerCase = ascii_toLowerCase, URL_new = simple_URL_new,
      URL_toString = simple_URL_toString, fetch = f\<rparr>"

section \<open>Concrete inputs\<close>

text \<open>Responses and settings on which the model is run below.\<close>

definition chat_reply :: "jsstring \<Rightarrow> response" where
  "chat_reply t =
     \<lparr>status = 200, text_body = [],
      json = Some \<lparr>asGeminiResponse = \<lparr>candidates = None\<rparr>,
                   asChatCompletionResponse =
                     \<lparr>choices = Some [\<lparr>message = Some \<lparr>role_choice = Some (str ''assistant''),
                                                        content_choice = Some t\<rparr>\<rparr>]\<rparr>\<rparr>\<rparr>"

definition gemini_reply :: "jsstring option list \<Rightarrow> response" where
  "gemini_reply ts =
     \<lparr>status = 200, text_body = [],
      json = Some \<lparr>asGeminiResponse =
                     \<lparr>candidates = Some [\<lparr>content_candidate =
                                            Some \<lparr>parts = Some (map (\<lambda>t. \<lparr>text_part = t\<rparr>) ts)\<rparr>\<rparr>]\<rparr>,
                   asChatCompletionResponse = \<lparr>choices = None\<rparr>\<rparr>\<rparr>"

definition empty_200 :: response where
  "empty_200 = \<lparr>status = 200, text_body = [], json = None\<rparr>"

definition P_chat :: "jsstring platform" where
  "P_chat = simple_platform None (\<lambda>_. Responded (chat_reply (str ''OK'')))"

definition P_gemini :: "jsstring platform" where
  "P_gemini = simple_platform None (\<lambda>_. Responded (gemini_reply [Some (str '' Hello,''), Some (str '' world! '')]))"

definition P_empty :: "jsstring platform" where
  "P_empty = simple_platform None (\<lambda>_. Responded empty_200)"

definition no_content_reply :: response where
  "no_content_reply =
     \<lparr>status = 200, text_body = [],
      json = Some \<lparr>asGeminiResponse = \<lparr>candidates = Some [\<lparr>content_candidate = None\<rparr>]\<rparr>,
                   asChatCompletionResponse = \<lparr>choices = None\<rparr>\<rparr>\<rparr>"

definition P_no_content :: "jsstring platform" where
  "P_no_content = simple_platform None (\<lambda>_. Responded no_content_reply)"

definition blank_settings :: LlmSettings where
  "blank_settings =
     \<lparr>endpoint = str ''  '', model = str ''tinyllama'', apiKey = [], systemPrompt = []\<rparr>"

definition gemini_settings :: LlmSettings where
  "gemini_settings =
     \<lparr>endpoint = str ''https://generativelanguage.googleapis.com/v1beta/models/gemini-1.5-flash:generateContent'',
      model = str ''gemini-1.5-pro'', apiKey = str ''AIzaSyExample'',
      systemPrompt = str '' Be brief. ''\<rparr>"

definition history :: "Message list" where
  "history =
     [\<lparr>id_message = str ''1'', role = System, content = str ''Stay safe.'', createdAt = str ''t0''\<rparr>,
      \<lparr>id_message = str ''2'', role = User, content = str ''Hi'', createdAt = str ''t1''\<rparr>,
      \<lparr>id_message = str ''3'', role = Assistant, content = str ''Hello'', createdAt = str ''t2''\<rparr>,
      \<lparr>id_message = str ''4'', role = User, content = str ''2+2?'', createdAt = str ''t3''\<rparr>]"

definition gemini_chat_request :: request where
  "gemini_chat_request =
     \<lparr>url = str ''https://generativelanguage.googleapis.com/v1beta/models/gemini-1.5-pro:generateContent?key=AIzaSyExample'',
      http_method = str ''POST'',
      headers = [(str ''Content-Type'', str ''application/json'')],
      body = GeminiPayload [str ''Be brief.'']
               [\<lparr>role_content = str ''user'', parts_content = [str ''Hi'']\<rparr>,
                \<lparr>role_content = str ''model'', parts_content = [str ''Hello'']\<rparr>,
                \<lparr>role_content = str ''user'', parts_content = [str ''2+2?'']\<rparr>]
               None\<rparr>"

definition openai_settings :: LlmSettings where
  "openai_settings =
     \<lparr>endpoint = str ''https://api.openai.com/v1/chat/completions'', model = str '' gpt-4o-mini'',
      apiKey = str ''sk-example'', systemPrompt = str '' Be brief. ''\<rparr>"

definition openai_chat_request :: request where
  "openai_chat_request =
     \<lparr>url = str ''https://api.openai.com/v1/chat/completions'', http_method = str ''POST'',
      headers = [(str ''Content-Type'', str ''application/json''),
                 (str ''Authorization'', str ''Bearer sk-example'')],
      body = ChatPayload (str ''gpt-4o-mini'')
               [\<lparr>role_chat = System, content_chat = str ''Be brief.''\<rparr>,
                \<lparr>role_chat = System, content_chat = str ''Stay safe.''\<rparr>,
                \<lparr>role_chat = User, content_chat = str ''Hi''\<rparr>,
                \<lparr>role_chat = Assistant, content_chat = str ''Hello''\<rparr>,
                \<lparr>role_chat = User, content_chat = str ''2+2?''\<rparr>]
               (3 / 10) None\<rparr>"






definition answer_task :: AutomationTask where
  "answer_task =
     \<lparr>id_task = str ''answer-web-questions'', name = str ''Answer Web Questions'',
      command = str ''Extract and answer questions from the current webpage content.'', enabled = True\<rparr>"





section \<open>Vocabulary of the properties\<close>





section \<open>Properties of the string functions\<close>





lemma show_nat_401: "show_nat 401 = str ''401''" by code_simp
lemma show_nat_403: "show_nat 403 = str ''403''" by code_simp
lemma show_nat_500: "show_nat 500 = str ''500''" by code_simp

lemma str_append: "str a @ str b = str (a @ b)" "str a @ str b @ x = str (a @ b) @ x"
  by (simp_all add: str_def)

lemma show_nat_digits: "\<forall>c \<in> set (show_nat n). 48 \<le> c \<and> c \<le> 57"
proof (induction n rule: show_nat.induct)
  case (1 n)
  show ?case
  proof (cases "n < 10")
    case True
    then show ?thesis by (subst show_nat.simps) simp
  next
    case False
    with 1 show ?thesis by (subst show_nat.simps) auto
  qed
qed

lemma show_nat_value: "foldl (\<lambda>a c. 10 * a + nat (c - 48)) 0 (show_nat n) = n"
proof (induction n rule: show_nat.induct)
  case (1 n)
  show ?case
  proof (cases "n < 10")
    case True
    then show ?thesis by (subst show_nat.simps) simp
  next
    case False
    with 1 show ?thesis by (subst show_nat.simps) simp
  qed
qed

section \<open>Properties of the connector\<close>

lemma formatProviderHttpError_kind:
  "fst (formatProviderHttpError provider st details) =
     (if st = 429 then RateLimited else if st = 401 \<or> st = 403 then AuthError else ProviderError)"
  by (simp add: formatProviderHttpError_def Let_def)

lemma formatProviderHttpError_not_Empty:
  "formatProviderHttpError provider st details = (k, m) \<Longrightarrow> k \<noteq> EmptyResponse \<and> k \<noteq> ConfigError"
  by (auto simp: formatProviderHttpError_def Let_def split: if_splits)

lemma withGeminiApiKey_error:
  "withGeminiApiKey P e k = Inl err \<Longrightarrow> err = TypeError"
  by (auto simp: withGeminiApiKey_def Let_def split: if_splits option.splits)

text \<open>
  C7. When the endpoint of the settings trims to the empty string, both
  \<open>requestChatCompletion\<close> and \<open>testConnector\<close> fail with a configuration error, and neither
  has handed a request to \<open>fetch\<close>.
\<close>

theorem empty_endpoint_ConfigError:
  assumes "trim (endpoint settings) = []"
  shows "requestChatCompletion P msgs settings =
           (Inl (Error ConfigError
              (str ''Connector endpoint is empty. Set a valid endpoint in Connector settings.'')), [])
         \<and> testConnector P settings =
             (Inl (Error ConfigError (str ''Connector endpoint is empty.'')), [])"
  using assms by (simp add: requestChatCompletion_def testConnector_def)

theorem empty_endpoint_ConfigError_witness:
  "trim (endpoint blank_settings) = [] \<and>
   (requestChatCompletion P_chat [] blank_settings =
      (Inl (Error ConfigError
         (str ''Connector endpoint is empty. Set a valid endpoint in Connector settings.'')), [])
    \<and> testConnector P_chat blank_settings =
        (Inl (Error ConfigError (str ''Connector endpoint is empty.'')), []))"
proof -
  have h: "trim (endpoint blank_settings) = []" by code_simp
  from h empty_endpoint_ConfigError[OF h] show ?thesis by (rule conjI)
qed

text \<open>
  C4. The error built from a response that is not ok is fixed by the status, for both
  providers. Status 429 gives a rate-limit error whose message is the provider, the text
  \<open>quota/rate limit reached (429):\<close>, the body and the advice on billing and quota;
  401 and 403 give an authentication error whose message is the provider, the text
  \<open>authentication/permission failed\<close>, the status in parentheses, the body and the advice
  to verify the key; every other status gives a provider error whose message is the
  provider, \<open>request failed\<close>, the status in parentheses and the body, for Gemini followed
  by the advice on the key and the API. In every message the body is cut to its first 220
  code units, and the status is written with its decimal digits.
\<close>

theorem http_error_classification:
  "(st = 429 \<longrightarrow>
      formatProviderHttpError Gemini st details =
        (RateLimited, str ''Gemini quota/rate limit reached (429): '' @ take 220 details
           @ str ''. Check billing/quota, then retry later or switch to Ollama preset.'')
      \<and> formatProviderHttpError OpenAI_compatible st details =
        (RateLimited, str ''OpenAI-compatible quota/rate limit reached (429): '' @ take 220 details
           @ str ''. Check billing/quota, then retry later or switch to Ollama preset.''))
   \<and> (st = 401 \<longrightarrow>
      formatProviderHttpError Gemini st details =
        (AuthError, str ''Gemini authentication/permission failed (401): '' @ take 220 details
           @ str ''. Verify API key and provider permissions.'')
      \<and> formatProviderHttpError OpenAI_compatible st details =
        (AuthError, str ''OpenAI-compatible authentication/permission failed (401): ''
           @ take 220 details @ str ''. Verify API key and provider permissions.''))
   \<and> (st = 403 \<longrightarrow>
      formatProviderHttpError Gemini st details =
        (AuthError, str ''Gemini authentication/permission failed (403): '' @ take 220 details
           @ str ''. Verify API key and provider permissions.'')
      \<and> formatProviderHttpError OpenAI_compatible st details =
        (AuthError, str ''OpenAI-compatible authentication/permission failed (403): ''
           @ take 220 details @ str ''. Verify API key and provider permissions.''))
   \<and> (st \<noteq> 429 \<and> st \<noteq> 401 \<and> st \<noteq> 403 \<longrightarrow>
      formatProviderHttpError Gemini st details =
        (ProviderError, str ''Gemini request failed ('' @ show_nat st @ str ''): ''
           @ take 220 details
           @ str ''. Verify API key validity and that Generative Language API is enabled.'')
      \<and> formatProviderHttpError OpenAI_compatible st details =
        (ProviderError, str ''OpenAI-compatible request failed ('' @ show_nat st @ str ''): ''
           @ take 220 details))
   \<and> foldl (\<lambda>a c. 10 * a + nat (c - 48)) 0 (show_nat st) = st
   \<and> (\<forall>c \<in> set (show_nat st). 48 \<le> c \<and> c \<le> 57)"
proof (intro conjI impI)
  assume "st = 429"
  then show "formatProviderHttpError Gemini st details =
        (RateLimited, str ''Gemini quota/rate limit reached (429): '' @ take 220 details
           @ str ''. Check billing/quota, then retry later or switch to Ollama preset.'')"
    by (simp add: formatProviderHttpError_def Let_def str_append)
next
  assume "st = 429"
  then show "formatProviderHttpError OpenAI_compatible st details =
        (RateLimited, str ''OpenAI-compatible quota/rate limit reached (429): '' @ take 220 details
           @ str ''. Check billing/quota, then retry later or switch to Ollama preset.'')"
    by (simp add: formatProviderHttpError_def Let_def str_append)
next
  assume "st = 401"
  then show "formatProviderHttpError Gemini st details =
        (AuthError, str ''Gemini authentication/permission failed (401): '' @ take 220 details
           @ str ''. Verify API key and provider permissions.'')"
    by (simp add: formatProviderHttpError_def Let_def show_nat_401 str_append)
next
  assume "st = 401"
  then show "formatProviderHttpError OpenAI_compatible st details =
        (AuthError, str ''OpenAI-compatible authentication/permission failed (401): ''
           @ take 220 details @ str ''. Verify API key and provider permissions.'')"
    by (simp add: formatProviderHttpError_def Let_def show_nat_401 str_append)
next
  assume "st = 403"
  then show "formatProviderHttpError Gemini st details =
        (AuthError, str ''Gemini authentication/permission failed (403): '' @ take 220 details
           @ str ''. Verify API key and provider permissions.'')"
    by (simp add: formatProviderHttpError_def Let_def show_nat_403 str_append)
next
  assume "st = 403"
  then show "formatProviderHttpError OpenAI_compatible st details =
        (AuthError, str ''OpenAI-compatible authentication/permission failed (403): ''
           @ take 220 details @ str ''. Verify API key and provider permissions.'')"
    by (simp add: formatProviderHttpError_def Let_def show_nat_403 str_append)
next
  assume "st \<noteq> 429 \<and> st \<noteq> 401 \<and> st \<noteq> 403"
  then show "formatProviderHttpError Gemini st details =
        (ProviderError, str ''Gemini request failed ('' @ show_nat st @ str ''): ''
           @ take 220 details
           @ str ''. Verify API key validity and that Generative Language API is enabled.'')"
    by (simp add: formatProviderHttpError_def Let_def)
next
  assume "st \<noteq> 429 \<and> st \<noteq> 401 \<and> st \<noteq> 403"
  then show "formatProviderHttpError OpenAI_compatible st details =
        (ProviderError, str ''OpenAI-compatible request failed ('' @ show_nat st @ str ''): ''
           @ take 220 details)"
    by (simp add: formatProviderHttpError_def Let_def str_append)
next
  show "foldl (\<lambda>a c. 10 * a + nat (c - 48)) 0 (show_nat st) = st" by (rule show_nat_value)
next
  show "\<forall>c \<in> set (show_nat st). 48 \<le> c \<and> c \<le> 57" by (rule show_nat_digits)
qed

theorem http_error_classification_witness:
  "formatProviderHttpError Gemini 429 (str ''quota'') =
     (RateLimited, str ''Gemini quota/rate limit reached (429): quota. Check billing/quota, then retry later or switch to Ollama preset.'')
   \<and> formatProviderHttpError OpenAI_compatible 403 (str ''denied'') =
     (AuthError, str ''OpenAI-compatible authentication/permission failed (403): denied. Verify API key and provider permissions.'')
   \<and> formatProviderHttpError OpenAI_compatible 500 (str ''oops'') =
     (ProviderError, str ''OpenAI-compatible request failed (500): oops'')"
proof -
  have a: "(429::nat) = 429" by simp
  have b: "(403::nat) = 403" by simp
  have c: "(500::nat) \<noteq> 429 \<and> (500::nat) \<noteq> 401 \<and> (500::nat) \<noteq> 403" by simp
  from http_error_classification[of 429 "str ''quota''"] a
  have 1: "formatProviderHttpError Gemini 429 (str ''quota'') =
        (RateLimited, str ''Gemini quota/rate limit reached (429): '' @ take 220 (str ''quota'')
           @ str ''. Check billing/quota, then retry later or switch to Ollama preset.'')"
    by blast
  from http_error_classification[of 403 "str ''denied''"] b
  have 2: "formatProviderHttpError OpenAI_compatible 403 (str ''denied'') =
        (AuthError, str ''OpenAI-compatible authentication/permission failed (403): ''
           @ take 220 (str ''denied'') @ str ''. Verify API key and provider permissions.'')"
    by blast
  from http_error_classification[of 500 "str ''oops''"] c
  have 3: "formatProviderHttpError OpenAI_compatible 500 (str ''oops'') =
        (ProviderError, str ''OpenAI-compatible request failed ('' @ show_nat 500 @ str ''): ''
           @ take 220 (str ''oops''))"
    by blast
  have t: "take 220 (str ''quota'') = str ''quota''" "take 220 (str ''denied'') = str ''denied''"
    "take 220 (str ''oops'') = str ''oops''" by (simp_all add: str_def)
  show ?thesis unfolding 1 2 3 t show_nat_500 by (simp add: str_append)
qed

text \<open>
  C10. On an endpoint classified as Gemini, \<open>testConnector\<close> answers a probe whose response
  is ok with the fixed text, whatever the body of the response is, and it never fails with
  an empty-response error.
\<close>

theorem testConnector_gemini_reachable:
  assumes "isGeminiEndpoint (trim (endpoint settings))"
  shows "(\<forall>req r. snd (testConnector P settings) = [req] \<and> fetch P req = Responded r \<and> ok r
            \<longrightarrow> fst (testConnector P settings) = Inr (str ''Gemini connector reachable''))
       \<and> (\<forall>m. fst (testConnector P settings) \<noteq> Inl (Error EmptyResponse m))"
  using assms
  by (auto simp: testConnector_def safeFetch_def Let_def
      split: option.splits sum.splits fetch_outcome.splits prod.splits if_splits
      dest: formatProviderHttpError_not_Empty withGeminiApiKey_error)

theorem testConnector_gemini_reachable_witness:
  "isGeminiEndpoint (trim (endpoint gemini_settings))
   \<and> fst (testConnector P_empty gemini_settings) = Inr (str ''Gemini connector reachable'')"
proof -
  have g: "isGeminiEndpoint (trim (endpoint gemini_settings))" by code_simp
  have "length (snd (testConnector P_empty gemini_settings)) = 1" by code_simp
  then obtain req where r: "snd (testConnector P_empty gemini_settings) = [req]"
    by (cases "snd (testConnector P_empty gemini_settings)") auto
  have f: "fetch P_empty req = Responded empty_200"
    by (simp add: P_empty_def simple_platform_def)
  have o: "ok empty_200" by (simp add: ok_def empty_200_def)
  from testConnector_gemini_reachable[OF g, of P_empty] r f o
  have "fst (testConnector P_empty gemini_settings) = Inr (str ''Gemini connector reachable'')"
    by blast
  with g show ?thesis by (rule conjI)
qed

lemma snd_requestChatCompletion:
  "snd (requestChatCompletion P msgs s) =
     (if trim (endpoint s) = [] then []
      else case validateProviderSettings P (trim (endpoint s)) (resolveApiKey P s) of
             Some x \<Rightarrow> []
           | None \<Rightarrow>
               if isGeminiEndpoint (trim (endpoint s)) then
                 (case withGeminiApiKey P (withGeminiModel (trim (endpoint s)) (model s)) (resolveApiKey P s) of
                    Inl x \<Rightarrow> []
                  | Inr u \<Rightarrow> [\<lparr>url = u, http_method = str ''POST'', headers = jsonContentType,
                                body = GeminiPayload [trim (systemPrompt s)] (geminiContents msgs) None\<rparr>])
               else [\<lparr>url = trim (endpoint s), http_method = str ''POST'',
                           headers = buildHeaders P s,
                           body = ChatPayload (trim (model s)) (chatMessages s msgs)
                                    (3 / 10) None\<rparr>])"
  by (simp add: requestChatCompletion_def Let_def
      split: option.split sum.split prod.split)


lemma join_Nil_concat: "join [] xs = concat xs"
  by (induction "[]::jsstring" xs rule: join.induct) simp_all

lemma role_literals:
  "str ''model'' \<noteq> str ''system''" "str ''user'' \<noteq> str ''system''"
  by (simp_all add: str_def)

lemma gemini_request:
  assumes "isGeminiEndpoint (trim (endpoint s))"
    and "req \<in> set (snd (requestChatCompletion P msgs s))"
  shows "body req = GeminiPayload [trim (systemPrompt s)] (geminiContents msgs) None
         \<and> req = \<lparr>url = url req, http_method = str ''POST'', headers = jsonContentType,
                   body = GeminiPayload [trim (systemPrompt s)] (geminiContents msgs) None\<rparr>
         \<and> withGeminiApiKey P (withGeminiModel (trim (endpoint s)) (model s)) (resolveApiKey P s)
             = Inr (url req)
         \<and> trim (endpoint s) \<noteq> []
         \<and> validateProviderSettings P (trim (endpoint s)) (resolveApiKey P s) = None
         \<and> snd (requestChatCompletion P msgs s) = [req]"
proof -
  note c = snd_requestChatCompletion[of P msgs s]
  from assms(2) have ne: "trim (endpoint s) \<noteq> []" unfolding c by (auto split: if_splits)
  from assms(2) ne have v: "validateProviderSettings P (trim (endpoint s)) (resolveApiKey P s) = None"
    unfolding c by (auto split: option.splits)
  obtain u where
    u: "withGeminiApiKey P (withGeminiModel (trim (endpoint s)) (model s)) (resolveApiKey P s) = Inr u"
  proof (cases "withGeminiApiKey P (withGeminiModel (trim (endpoint s)) (model s)) (resolveApiKey P s)")
    case (Inl a)
    with assms ne v have False unfolding c by simp
    then show ?thesis ..
  next
    case (Inr b)
    then show ?thesis by (rule that)
  qed
  from ne v assms(1) u have sn: "snd (requestChatCompletion P msgs s) =
      [\<lparr>url = u, http_method = str ''POST'', headers = jsonContentType,
                 body = GeminiPayload [trim (systemPrompt s)] (geminiContents msgs) None\<rparr>]"
    unfolding c by simp
  with assms(2) have "req = \<lparr>url = u, http_method = str ''POST'', headers = jsonContentType,
                 body = GeminiPayload [trim (systemPrompt s)] (geminiContents msgs) None\<rparr>" by simp
  with ne v u sn show ?thesis by simp
qed

lemma role_cases: "role m \<noteq> System \<Longrightarrow> role m = Assistant \<or> role m = User"
  by (cases "role m") simp_all

lemma geminiContents_shape:
  "list_all2 (\<lambda>m c. (role m = Assistant \<and> role_content c = str ''model''
                      \<or> role m = User \<and> role_content c = str ''user'')
                     \<and> parts_content c = [content m])
     (filter (\<lambda>m. role m \<noteq> System) msgs) (geminiContents msgs)"
  unfolding geminiContents_def list_all2_map2 list_all2_same
proof
  fix m assume "m \<in> set (filter (\<lambda>m. role m \<noteq> System) msgs)"
  then have "role m \<noteq> System" by simp
  then show "(role m = Assistant \<and>
          role_content
           \<lparr>role_content = if role m = Assistant then str ''model'' else str ''user'',
              parts_content = [content m]\<rparr> = str ''model'' \<or>
          role m = User \<and>
          role_content
           \<lparr>role_content = if role m = Assistant then str ''model'' else str ''user'',
              parts_content = [content m]\<rparr> = str ''user'') \<and>
         parts_content
          \<lparr>role_content = if role m = Assistant then str ''model'' else str ''user'',
             parts_content = [content m]\<rparr> = [content m]"
    by (cases "role m") simp_all
qed

lemma geminiContents_roles:
  "c \<in> set (geminiContents msgs) \<Longrightarrow> role_content c \<noteq> str ''system''"
  unfolding geminiContents_def using role_literals by (auto split: if_splits)

text \<open>
  C2. Every request that \<open>requestChatCompletion\<close> sends to a Gemini endpoint has a body whose
  \<open>contents\<close> are the messages of the history that do not have the role \<open>system\<close>, in their
  order, each with its content as its only part and with the role \<open>model\<close> for an assistant
  message and \<open>user\<close> for a user message; no entry has the role \<open>system\<close>, and the trimmed
  system prompt is the \<open>system_instruction\<close>.
\<close>

theorem gemini_contents_no_system:
  assumes "isGeminiEndpoint (trim (endpoint settings))"
    and "req \<in> set (snd (requestChatCompletion P msgs settings))"
  shows "\<exists>cs. body req = GeminiPayload [trim (systemPrompt settings)] cs None
     \<and> list_all2 (\<lambda>m c. (role m = Assistant \<and> role_content c = str ''model''
                          \<or> role m = User \<and> role_content c = str ''user'')
                        \<and> parts_content c = [content m])
          (filter (\<lambda>m. role m \<noteq> System) msgs) cs
     \<and> (\<forall>c \<in> set cs. role_content c \<noteq> str ''system'')"
proof -
  let ?cs = "geminiContents msgs"
  have b: "body req = GeminiPayload [trim (systemPrompt settings)] ?cs None"
    using gemini_request[OF assms] by (rule conjunct1)
  have n: "\<forall>c \<in> set ?cs. role_content c \<noteq> str ''system''"
    using geminiContents_roles by blast
  from b geminiContents_shape[of msgs] n show ?thesis by blast
qed

theorem gemini_contents_no_system_witness:
  "isGeminiEndpoint (trim (endpoint gemini_settings))
   \<and> gemini_chat_request \<in> set (snd (requestChatCompletion P_gemini history gemini_settings))
   \<and> (\<exists>cs. body gemini_chat_request = GeminiPayload [trim (systemPrompt gemini_settings)] cs None
     \<and> list_all2 (\<lambda>m c. (role m = Assistant \<and> role_content c = str ''model''
                          \<or> role m = User \<and> role_content c = str ''user'')
                        \<and> parts_content c = [content m])
          (filter (\<lambda>m. role m \<noteq> System) history) cs
     \<and> (\<forall>c \<in> set cs. role_content c \<noteq> str ''system''))"
proof -
  have g: "isGeminiEndpoint (trim (endpoint gemini_settings))" by code_simp
  have "snd (requestChatCompletion P_gemini history gemini_settings) = [gemini_chat_request]"
    by code_simp
  then have m: "gemini_chat_request \<in> set (snd (requestChatCompletion P_gemini history gemini_settings))"
    by simp
  from g m gemini_contents_no_system[OF g m] show ?thesis by (intro conjI)
qed

lemma snd_requestChatCompletion_openai:
  assumes "\<not> isGeminiEndpoint (trim (endpoint s))"
    and "req \<in> set (snd (requestChatCompletion P msgs s))"
  shows "req = \<lparr>url = trim (endpoint s), http_method = str ''POST'', headers = buildHeaders P s,
                 body = ChatPayload (trim (model s)) (chatMessages s msgs) (3 / 10) None\<rparr>"
proof -
  note c = snd_requestChatCompletion[of P msgs s]
  from assms(2) have ne: "trim (endpoint s) \<noteq> []" unfolding c by (auto split: if_splits)
  from assms(2) ne have v: "validateProviderSettings P (trim (endpoint s)) (resolveApiKey P s) = None"
    unfolding c by (auto split: option.splits)
  from assms ne v show ?thesis unfolding c by simp
qed

lemma header_literals: "str ''Content-Type'' \<noteq> str ''Authorization''"
  by (simp add: str_def)

lemma buildHeaders_Authorization:
  "map_of (buildHeaders P s) (str ''Authorization'') =
     (if resolveApiKey P s = [] then None else Some (str ''Bearer '' @ resolveApiKey P s))"
  using header_literals by (simp add: buildHeaders_def Let_def)

text \<open>
  C5. Every request that \<open>requestChatCompletion\<close> sends to an endpoint that is not classified
  as Gemini has a body whose \<open>messages\<close> start with a message of role \<open>system\<close> holding the
  trimmed system prompt, followed by the role and content of each message of the history in
  order; its headers have the JSON content type, and an \<open>Authorization\<close> header, which is
  \<open>Bearer\<close> and the resolved key, exactly when the resolved key is not empty.
\<close>

theorem openai_messages_and_headers:
  assumes "\<not> isGeminiEndpoint (trim (endpoint settings))"
    and "req \<in> set (snd (requestChatCompletion P msgs settings))"
  shows "\<exists>ms. body req = ChatPayload (trim (model settings)) ms (3 / 10) None
     \<and> ms = \<lparr>role_chat = System, content_chat = trim (systemPrompt settings)\<rparr>
              # map (\<lambda>m. \<lparr>role_chat = role m, content_chat = content m\<rparr>) msgs
     \<and> map_of (headers req) (str ''Content-Type'') = Some (str ''application/json'')
     \<and> (resolveApiKey P settings \<noteq> [] \<longrightarrow>
          map_of (headers req) (str ''Authorization'')
            = Some (str ''Bearer '' @ resolveApiKey P settings))
     \<and> (resolveApiKey P settings = [] \<longrightarrow> map_of (headers req) (str ''Authorization'') = None)"
proof -
  have r: "req = \<lparr>url = trim (endpoint settings), http_method = str ''POST'',
                   headers = buildHeaders P settings,
                   body = ChatPayload (trim (model settings)) (chatMessages settings msgs) (3 / 10) None\<rparr>"
    using assms by (rule snd_requestChatCompletion_openai)
  have b: "body req = ChatPayload (trim (model settings)) (chatMessages settings msgs) (3 / 10) None"
    by (subst r) simp
  have h: "headers req = buildHeaders P settings" by (subst r) simp
  have ct: "map_of (buildHeaders P settings) (str ''Content-Type'') = Some (str ''application/json'')"
    by (simp add: buildHeaders_def Let_def)
  show ?thesis
    unfolding b h using ct by (simp add: buildHeaders_Authorization chatMessages_def)
qed

theorem openai_messages_and_headers_witness:
  "\<not> isGeminiEndpoint (trim (endpoint openai_settings))
   \<and> openai_chat_request \<in> set (snd (requestChatCompletion P_chat history openai_settings))
   \<and> resolveApiKey P_chat openai_settings \<noteq> []
   \<and> map_of (headers openai_chat_request) (str ''Authorization'')
        = Some (str ''Bearer '' @ resolveApiKey P_chat openai_settings)"
proof -
  have g: "\<not> isGeminiEndpoint (trim (endpoint openai_settings))" by code_simp
  have "snd (requestChatCompletion P_chat history openai_settings) = [openai_chat_request]"
    by code_simp
  then have m: "openai_chat_request \<in> set (snd (requestChatCompletion P_chat history openai_settings))"
    by simp
  have k: "resolveApiKey P_chat openai_settings \<noteq> []" by code_simp
  from openai_messages_and_headers[OF g m] k
  have "map_of (headers openai_chat_request) (str ''Authorization'')
        = Some (str ''Bearer '' @ resolveApiKey P_chat openai_settings)" by blast
  with g m k show ?thesis by (intro conjI)
qed

lemma requestChatCompletion_gemini_ok:
  assumes "trim (endpoint s) \<noteq> []"
    and "validateProviderSettings P (trim (endpoint s)) (resolveApiKey P s) = None"
    and "isGeminiEndpoint (trim (endpoint s))"
    and "withGeminiApiKey P (withGeminiModel (trim (endpoint s)) (model s)) (resolveApiKey P s) = Inr u"
    and "fetch P \<lparr>url = u, http_method = str ''POST'', headers = jsonContentType,
                   body = GeminiPayload [trim (systemPrompt s)] (geminiContents msgs) None\<rparr>
           = Responded r"
    and "ok r" and "json r = Some b"
  shows "fst (requestChatCompletion P msgs s) =
           (case geminiText (asGeminiResponse b) of
              None \<Rightarrow> Inl (Error EmptyResponse (str ''Gemini response did not include assistant content.''))
            | Some c \<Rightarrow> if c = [] then Inl (Error EmptyResponse (str ''Gemini response did not include assistant content.''))
                        else Inr c)"
  using assms
  by (simp add: requestChatCompletion_def safeFetch_def Let_def split: option.split)

lemma geminiText_parts:
  assumes "candidates g = Some (c # cs)" "content_candidate c = Some ct" "parts ct = Some ps"
  shows "geminiText g = Some (trim (concat (map (\<lambda>p. case text_part p of Some t \<Rightarrow> t | None \<Rightarrow> []) ps)))"
  using assms by (simp add: geminiText_def join_Nil_concat)

lemma geminiText_missing:
  assumes "candidates g = None \<or> candidates g = Some []
           \<or> (\<exists>c cs. candidates g = Some (c # cs) \<and>
                 (content_candidate c = None
                  \<or> (\<exists>ct. content_candidate c = Some ct \<and> parts ct = None)))"
  shows "geminiText g = None"
  using assms by (auto simp: geminiText_def)


text \<open>
  C6. When the request sent to a Gemini endpoint gets a response that is ok and whose body
  is JSON, the result is the concatenation, without separator, of the \<open>text\<close> fields of the
  parts of the first candidate's content (a missing field counts as the empty string),
  trimmed; when that is empty, or when there is no first candidate, or the first candidate
  has no content, or its content has no parts, the call fails with an empty-response error.
  Two parts give their two texts joined, then trimmed. The call never returns the empty
  string.
\<close>

theorem gemini_reply_text:
  assumes "isGeminiEndpoint (trim (endpoint settings))"
    and "snd (requestChatCompletion P msgs settings) = [req]"
    and "fetch P req = Responded r" and "ok r" and "json r = Some b"
  shows "(\<forall>c cs ct ps.
            candidates (asGeminiResponse b) = Some (c # cs) \<and> content_candidate c = Some ct
            \<and> parts ct = Some ps \<longrightarrow>
            fst (requestChatCompletion P msgs settings) =
              (if trim (concat (map (\<lambda>p. case text_part p of Some t \<Rightarrow> t | None \<Rightarrow> []) ps)) = []
               then Inl (Error EmptyResponse
                      (str ''Gemini response did not include assistant content.''))
               else Inr (trim (concat (map (\<lambda>p. case text_part p of Some t \<Rightarrow> t | None \<Rightarrow> []) ps)))))
       \<and> (\<forall>c cs ct t1 t2.
            candidates (asGeminiResponse b) = Some (c # cs) \<and> content_candidate c = Some ct
            \<and> parts ct = Some [\<lparr>text_part = Some t1\<rparr>, \<lparr>text_part = Some t2\<rparr>]
            \<and> trim (t1 @ t2) \<noteq> [] \<longrightarrow>
            fst (requestChatCompletion P msgs settings) = Inr (trim (t1 @ t2)))
       \<and> (candidates (asGeminiResponse b) = None \<or> candidates (asGeminiResponse b) = Some [] \<longrightarrow>
            fst (requestChatCompletion P msgs settings) =
              Inl (Error EmptyResponse (str ''Gemini response did not include assistant content.'')))
       \<and> (\<forall>c cs. candidates (asGeminiResponse b) = Some (c # cs) \<and> content_candidate c = None \<longrightarrow>
            fst (requestChatCompletion P msgs settings) =
              Inl (Error EmptyResponse (str ''Gemini response did not include assistant content.'')))
       \<and> (\<forall>c cs ct. candidates (asGeminiResponse b) = Some (c # cs)
            \<and> content_candidate c = Some ct \<and> parts ct = None \<longrightarrow>
            fst (requestChatCompletion P msgs settings) =
              Inl (Error EmptyResponse (str ''Gemini response did not include assistant content.'')))
       \<and> fst (requestChatCompletion P msgs settings) \<noteq> Inr []"
proof -
  have m: "req \<in> set (snd (requestChatCompletion P msgs settings))" using assms(2) by simp
  note g = gemini_request[OF assms(1) m]
  let ?u = "url req"
  have r: "req = \<lparr>url = ?u, http_method = str ''POST'', headers = jsonContentType,
                   body = GeminiPayload [trim (systemPrompt settings)] (geminiContents msgs) None\<rparr>"
    using g by blast
  have f: "fetch P \<lparr>url = ?u, http_method = str ''POST'', headers = jsonContentType,
                   body = GeminiPayload [trim (systemPrompt settings)] (geminiContents msgs) None\<rparr>
             = Responded r"
    using assms(3) r by simp
  have ne: "trim (endpoint settings) \<noteq> []" using g by blast
  have v: "validateProviderSettings P (trim (endpoint settings)) (resolveApiKey P settings) = None"
    using g by blast
  have w: "withGeminiApiKey P (withGeminiModel (trim (endpoint settings)) (model settings))
             (resolveApiKey P settings) = Inr ?u"
    using g by blast
  note res = requestChatCompletion_gemini_ok[OF ne v assms(1) w f assms(4) assms(5)]
  have 1: "\<forall>c cs ct ps.
            candidates (asGeminiResponse b) = Some (c # cs) \<and> content_candidate c = Some ct
            \<and> parts ct = Some ps \<longrightarrow>
            fst (requestChatCompletion P msgs settings) =
              (if trim (concat (map (\<lambda>p. case text_part p of Some t \<Rightarrow> t | None \<Rightarrow> []) ps)) = []
               then Inl (Error EmptyResponse
                      (str ''Gemini response did not include assistant content.''))
               else Inr (trim (concat (map (\<lambda>p. case text_part p of Some t \<Rightarrow> t | None \<Rightarrow> []) ps))))"
    unfolding res by (simp add: geminiText_parts)
  have 2: "\<forall>c cs ct t1 t2.
            candidates (asGeminiResponse b) = Some (c # cs) \<and> content_candidate c = Some ct
            \<and> parts ct = Some [\<lparr>text_part = Some t1\<rparr>, \<lparr>text_part = Some t2\<rparr>]
            \<and> trim (t1 @ t2) \<noteq> [] \<longrightarrow>
            fst (requestChatCompletion P msgs settings) = Inr (trim (t1 @ t2))"
    unfolding res by (simp add: geminiText_parts)
  have 3: "candidates (asGeminiResponse b) = None \<or> candidates (asGeminiResponse b) = Some [] \<longrightarrow>
            fst (requestChatCompletion P msgs settings) =
              Inl (Error EmptyResponse (str ''Gemini response did not include assistant content.''))"
    unfolding res by (auto simp: geminiText_missing)
  have 4: "\<forall>c cs. candidates (asGeminiResponse b) = Some (c # cs) \<and> content_candidate c = None \<longrightarrow>
            fst (requestChatCompletion P msgs settings) =
              Inl (Error EmptyResponse (str ''Gemini response did not include assistant content.''))"
  proof (intro allI impI)
    fix c cs
    assume "candidates (asGeminiResponse b) = Some (c # cs) \<and> content_candidate c = None"
    then have "geminiText (asGeminiResponse b) = None" by (intro geminiText_missing) blast
    then show "fst (requestChatCompletion P msgs settings) =
              Inl (Error EmptyResponse (str ''Gemini response did not include assistant content.''))"
      unfolding res by simp
  qed
  have 5: "\<forall>c cs ct. candidates (asGeminiResponse b) = Some (c # cs)
            \<and> content_candidate c = Some ct \<and> parts ct = None \<longrightarrow>
            fst (requestChatCompletion P msgs settings) =
              Inl (Error EmptyResponse (str ''Gemini response did not include assistant content.''))"
  proof (intro allI impI)
    fix c cs ct
    assume "candidates (asGeminiResponse b) = Some (c # cs)
            \<and> content_candidate c = Some ct \<and> parts ct = None"
    then have "geminiText (asGeminiResponse b) = None" by (intro geminiText_missing) blast
    then show "fst (requestChatCompletion P msgs settings) =
              Inl (Error EmptyResponse (str ''Gemini response did not include assistant content.''))"
      unfolding res by simp
  qed
  have 6: "fst (requestChatCompletion P msgs settings) \<noteq> Inr []"
    unfolding res by (simp split: option.split)
  from 1 2 3 4 5 6 show ?thesis by (intro conjI)
qed

theorem gemini_reply_text_witness:
  "isGeminiEndpoint (trim (endpoint gemini_settings))
   \<and> snd (requestChatCompletion P_gemini history gemini_settings) = [gemini_chat_request]
   \<and> fetch P_gemini gemini_chat_request
        = Responded (gemini_reply [Some (str '' Hello,''), Some (str '' world! '')])
   \<and> ok (gemini_reply [Some (str '' Hello,''), Some (str '' world! '')])
   \<and> fst (requestChatCompletion P_gemini history gemini_settings) = Inr (str ''Hello, world!'')
   \<and> snd (requestChatCompletion P_no_content history gemini_settings) = [gemini_chat_request]
   \<and> fetch P_no_content gemini_chat_request = Responded no_content_reply
   \<and> ok no_content_reply
   \<and> fst (requestChatCompletion P_no_content history gemini_settings) =
       Inl (Error EmptyResponse (str ''Gemini response did not include assistant content.''))"
proof -
  let ?r = "gemini_reply [Some (str '' Hello,''), Some (str '' world! '')]"
  let ?ct = "\<lparr>parts = Some [\<lparr>text_part = Some (str '' Hello,'')\<rparr>, \<lparr>text_part = Some (str '' world! '')\<rparr>]\<rparr>"
  let ?b = "\<lparr>asGeminiResponse = \<lparr>candidates = Some [\<lparr>content_candidate = Some ?ct\<rparr>]\<rparr>,
             asChatCompletionResponse = \<lparr>choices = None\<rparr>\<rparr>"
  let ?b' = "\<lparr>asGeminiResponse = \<lparr>candidates = Some [\<lparr>content_candidate = None\<rparr>]\<rparr>,
              asChatCompletionResponse = \<lparr>choices = None\<rparr>\<rparr>"
  have g: "isGeminiEndpoint (trim (endpoint gemini_settings))" by code_simp
  have sn: "snd (requestChatCompletion P_gemini history gemini_settings) = [gemini_chat_request]"
    by code_simp
  have f: "fetch P_gemini gemini_chat_request = Responded ?r"
    by (simp add: P_gemini_def simple_platform_def)
  have o: "ok ?r" by (simp add: ok_def gemini_reply_def)
  have j: "json ?r = Some ?b" by (simp add: gemini_reply_def)
  have t: "trim (str '' Hello,'' @ str '' world! '') = str ''Hello, world!''" by code_simp
  have n: "str ''Hello, world!'' \<noteq> []" by (simp add: str_def)
  have c: "candidates (asGeminiResponse ?b) = Some (\<lparr>content_candidate = Some ?ct\<rparr> # [])
           \<and> content_candidate \<lparr>content_candidate = Some ?ct\<rparr> = Some ?ct
           \<and> parts ?ct = Some [\<lparr>text_part = Some (str '' Hello,'')\<rparr>, \<lparr>text_part = Some (str '' world! '')\<rparr>]
           \<and> trim (str '' Hello,'' @ str '' world! '') \<noteq> []"
    using t n by simp
  from gemini_reply_text[OF g sn f o j] c
  have "fst (requestChatCompletion P_gemini history gemini_settings)
          = Inr (trim (str '' Hello,'' @ str '' world! ''))" by blast
  then have a: "fst (requestChatCompletion P_gemini history gemini_settings) = Inr (str ''Hello, world!'')"
    using t by simp
  have sn': "snd (requestChatCompletion P_no_content history gemini_settings) = [gemini_chat_request]"
    by code_simp
  have f': "fetch P_no_content gemini_chat_request = Responded no_content_reply"
    by (simp add: P_no_content_def simple_platform_def)
  have o': "ok no_content_reply" by (simp add: ok_def no_content_reply_def)
  have j': "json no_content_reply = Some ?b'" by (simp add: no_content_reply_def)
  have c': "candidates (asGeminiResponse ?b') = Some (\<lparr>content_candidate = None\<rparr> # [])
           \<and> content_candidate \<lparr>content_candidate = None\<rparr> = None" by simp
  from gemini_reply_text[OF g sn' f' o' j'] c'
  have a': "fst (requestChatCompletion P_no_content history gemini_settings) =
       Inl (Error EmptyResponse (str ''Gemini response did not include assistant content.''))"
    by blast
  from g sn f o a sn' f' o' a' show ?thesis by (intro conjI)
qed

text \<open>
  A response that is not ok makes \<open>requestChatCompletion\<close> fail with the error that
  \<open>formatProviderHttpError\<close> builds from the provider, the status and the body.
\<close>

lemma openai_request:
  assumes "\<not> isGeminiEndpoint (trim (endpoint s))"
    and "req \<in> set (snd (requestChatCompletion P msgs s))"
  shows "trim (endpoint s) \<noteq> []
     \<and> validateProviderSettings P (trim (endpoint s)) (resolveApiKey P s) = None"
proof -
  note c = snd_requestChatCompletion[of P msgs s]
  from assms(2) have ne: "trim (endpoint s) \<noteq> []" unfolding c by (auto split: if_splits)
  from assms(2) ne have v: "validateProviderSettings P (trim (endpoint s)) (resolveApiKey P s) = None"
    unfolding c by (auto split: option.splits)
  from ne v show ?thesis by simp
qed

lemma not_ok_response_error:
  assumes "req \<in> set (snd (requestChatCompletion P msgs s))"
    and "fetch P req = Responded r" and "\<not> ok r"
  shows "fst (requestChatCompletion P msgs s) =
           Inl (Error
             (fst (formatProviderHttpError
                     (if isGeminiEndpoint (trim (endpoint s)) then Gemini else OpenAI_compatible)
                     (status r) (text_body r)))
             (snd (formatProviderHttpError
                     (if isGeminiEndpoint (trim (endpoint s)) then Gemini else OpenAI_compatible)
                     (status r) (text_body r))))"
proof (cases "isGeminiEndpoint (trim (endpoint s))")
  case True
  note g = gemini_request[OF True assms(1)]
  have r: "req = \<lparr>url = url req, http_method = str ''POST'', headers = jsonContentType,
                   body = GeminiPayload [trim (systemPrompt s)] (geminiContents msgs) None\<rparr>"
    using g by blast
  have f: "fetch P \<lparr>url = url req, http_method = str ''POST'', headers = jsonContentType,
                   body = GeminiPayload [trim (systemPrompt s)] (geminiContents msgs) None\<rparr>
             = Responded r"
    using assms(2) r by simp
  have ne: "trim (endpoint s) \<noteq> []" using g by blast
  have v: "validateProviderSettings P (trim (endpoint s)) (resolveApiKey P s) = None"
    using g by blast
  have w: "withGeminiApiKey P (withGeminiModel (trim (endpoint s)) (model s)) (resolveApiKey P s)
             = Inr (url req)"
    using g by blast
  from True ne v w f assms(3) show ?thesis
    by (simp add: requestChatCompletion_def safeFetch_def Let_def split: prod.split)
next
  case False
  note o = openai_request[OF False assms(1)]
  have r: "req = \<lparr>url = trim (endpoint s), http_method = str ''POST'', headers = buildHeaders P s,
                 body = ChatPayload (trim (model s)) (chatMessages s msgs) (3 / 10) None\<rparr>"
    using False assms(1) by (rule snd_requestChatCompletion_openai)
  have f: "fetch P \<lparr>url = trim (endpoint s), http_method = str ''POST'', headers = buildHeaders P s,
                 body = ChatPayload (trim (model s)) (chatMessages s msgs) (3 / 10) None\<rparr>
             = Responded r"
    using assms(2) r by simp
  from False o f assms(3) show ?thesis
    by (simp add: requestChatCompletion_def safeFetch_def Let_def split: prod.split)
qed






section \<open>Properties of the automation engine\<close>






text \<open>
  C9. On the prompt \<open>What is 2+2? Answer: 4\<close> the prompt holds no URL, the questions found
  are exactly \<open>What is 2+2?\<close>, the answer extracted is \<open>4\<close>, and \<open>runAutomation\<close> with the
  task \<open>answer-web-questions\<close> reports one question, that question and that answer.
\<close>

theorem answer_web_questions_example:
  "regex_search match_url [] (trim (str ''What is 2+2? Answer: 4'')) = None
   \<and> questionMatches (trim (str ''What is 2+2? Answer: 4'')) = [str ''What is 2+2?'']
   \<and> extractedAnswer (trim (str ''What is 2+2? Answer: 4'')) = Some (str ''4'')
   \<and> runAutomation P_chat (str ''What is 2+2? Answer: 4'') [answer_task] =
       [str ''[Answer Web Questions]'' @ [10] @ str ''Detected 1 question(s).'' @ [10]
          @ [10068] @ str '' Questions:'' @ [10] @ str ''- What is 2+2?'' @ [10]
          @ [9989] @ str '' Possible answer found in provided content: 4'',
        [10] @ str ''Input: '' @ [34] @ str ''What is 2+2? Answer: 4'' @ [34]]"
  by code_simp

section \<open>The URL of a Gemini request\<close>














end
